theory Spec2Isabelle
  imports Main
begin

section \<open>Data model of scripts/generate-embeddings.py\<close>

text \<open>
  The composite natural key \<open>(study_accession, snps, strongest_snp_risk_allele)\<close> is a
  triple of Python strings (\<open>Tuple[str, str, str]\<close> in the signatures). A string is a list
  of characters; a character stands for one code point below 256.
\<close>

type_synonym composite_key = "string \<times> string \<times> string"

text \<open>
  A two-dimensional numpy array: \<open>shape = (length (rows a), ncols a)\<close>. Iterating over
  the array yields its rows, \<open>row.tolist()\<close> is the row. The component type \<open>'a\<close> stands
  for the floating-point numbers, which the script never computes with.
\<close>

record 'a ndarray =
  ncols :: nat
  rows :: "'a list list"

text \<open>The exceptions the modelled functions raise, each with its message or key.\<close>

datatype error =
    FileNotFoundError string
  | KeyError string
  | ValueError string
  | DatabaseError string

text \<open>
  The content of an \<open>.npz\<close> archive as \<open>np.load\<close> exposes it: every named entry the
  script reads is there or not (\<open>'name' in data\<close>); reading an absent entry raises
  \<open>KeyError\<close>.
\<close>

record 'a npz =
  npz_study_keys :: "string list option"
  npz_study_accessions :: "string list option"
  npz_snps :: "string list option"
  npz_risk_alleles :: "string list option"
  npz_embeddings :: "'a ndarray option"
  npz_dimensions :: "int option"

text \<open>The files the script can see: a path has an archive or does not exist.\<close>

type_synonym 'a filesystem = "string \<rightharpoonup> 'a npz"

section \<open>Python string helpers\<close>

text \<open>\<open>s.split(sep)\<close> for a one-character separator: one more part than separators.\<close>

fun split :: "char \<Rightarrow> string \<Rightarrow> string list" where
  "split sep [] = [[]]"
| "split sep (c # cs) =
     (let ps = split sep cs
      in if c = sep then [] # ps else (c # hd ps) # tl ps)"

text \<open>\<open>str(n)\<close> for a natural number: its decimal digits.\<close>

fun str_nat :: "nat \<Rightarrow> string" where
  "str_nat n =
     (if n < 10 then [char_of (48 + n)]
      else str_nat (n div 10) @ [char_of (48 + n mod 10)])"

text \<open>
  \<open>c.isspace()\<close> on the code points below 256: tab, line feed, vertical tab, form feed,
  carriage return, the four separators 28 to 31, space, next line (133) and no-break
  space (160).
\<close>

definition isspace :: "char \<Rightarrow> bool" where
  "isspace c =
     (let n = (of_char c :: nat)
      in (9 \<le> n \<and> n \<le> 13) \<or> (28 \<le> n \<and> n \<le> 32) \<or> n = 133 \<or> n = 160)"

text \<open>\<open>s.strip()\<close>: leading and trailing whitespace removed.\<close>

definition strip :: "string \<Rightarrow> string" where
  "strip s = rev (dropWhile isspace (rev (dropWhile isspace s)))"

text \<open>\<open>sep.join(parts)\<close>.\<close>

fun join :: "string \<Rightarrow> string list \<Rightarrow> string" where
  "join sep [] = []"
| "join sep [p] = p"
| "join sep (p # q # ps) = p @ sep @ join sep (q # ps)"

text \<open>
  The stop index of the slice \<open>xs[:d]\<close> on a sequence of length \<open>n\<close>: a negative \<open>d\<close>
  counts from the end, and the result is clamped to \<open>0..n\<close>.
\<close>

definition slice_stop :: "int \<Rightarrow> nat \<Rightarrow> nat" where
  "slice_stop d n = (if d < 0 then nat (int n + d) else min (nat d) n)"

text \<open>\<open>xs[i:i+n]\<close> for \<open>i \<ge> 0\<close> and \<open>n \<ge> 0\<close>.\<close>

definition slice :: "nat \<Rightarrow> nat \<Rightarrow> 'b list \<Rightarrow> 'b list" where
  "slice i n xs = take n (drop i xs)"

text \<open>\<open>range(0, stop, step)\<close> for a positive \<open>step\<close>: \<open>0, step, 2 * step, ...\<close> below \<open>stop\<close>.\<close>

definition range_step :: "nat \<Rightarrow> nat \<Rightarrow> nat list" where
  "range_step stop step = map (\<lambda>j. j * step) [0..<(stop + step - 1) div step]"

section \<open>LocalCache: save and load of the npz file\<close>

text \<open>
  \<open>np.savez_compressed(file, ...)\<close> appends \<open>.npz\<close> to a file name that does not end
  with it.
\<close>

definition endswith :: "string \<Rightarrow> string \<Rightarrow> bool" where
  "endswith s suffix = (take (length suffix) (rev s) = rev suffix)"

definition npz_path :: "string \<Rightarrow> string" where
  "npz_path filepath = (if endswith filepath ''.npz'' then filepath else filepath @ ''.npz'')"

text \<open>
  \<open>save_embeddings_to_file\<close>: the three key components as parallel arrays, the vectors,
  and \<open>embeddings.shape[1]\<close> as the dimension scalar; no \<open>study_keys\<close> entry. After the
  write the script asks for the size of \<open>filepath\<close> itself, which raises when no such
  file exists. The result is the file system after the call and how the call ended.
\<close>

definition save_embeddings_to_file ::
  "string \<Rightarrow> composite_key list \<Rightarrow> 'a ndarray \<Rightarrow> 'a filesystem \<Rightarrow> 'a filesystem \<times> (error + unit)" where
  "save_embeddings_to_file filepath composite_keys embeddings fs =
     (let study_accessions = map (\<lambda>k. fst k) composite_keys;
          snps = map (\<lambda>k. fst (snd k)) composite_keys;
          risk_alleles = map (\<lambda>k. snd (snd k)) composite_keys;
          fs' = fs(npz_path filepath \<mapsto>
                 \<lparr>npz_study_keys = None,
                  npz_study_accessions = Some study_accessions,
                  npz_snps = Some snps,
                  npz_risk_alleles = Some risk_alleles,
                  npz_embeddings = Some embeddings,
                  npz_dimensions = Some (int (ncols embeddings))\<rparr>)
      in case fs' filepath of
           None \<Rightarrow> (fs', Inl (FileNotFoundError filepath))
         | Some _ \<Rightarrow> (fs', Inr ()))"

text \<open>
  The loop over the legacy keys: each is split on \<open>|\<close> and appended as a triple when
  the split has three parts; otherwise \<open>ValueError\<close> is raised with the message
  \<open>Invalid study_key format: {key} (expected 3 parts, got {len(parts)})\<close>.
\<close>

definition invalid_study_key :: "string \<Rightarrow> nat \<Rightarrow> string" where
  "invalid_study_key key n =
     ''Invalid study_key format: '' @ key @ '' (expected 3 parts, got '' @ str_nat n @ '')''"

fun parse_study_keys :: "string list \<Rightarrow> composite_key list \<Rightarrow> error + composite_key list" where
  "parse_study_keys [] composite_keys = Inr composite_keys"
| "parse_study_keys (key # study_keys) composite_keys =
     (let parts = split (CHR ''|'') key
      in if length parts = 3
         then parse_study_keys study_keys (composite_keys @ [(parts ! 0, parts ! 1, parts ! 2)])
         else Inl (ValueError (invalid_study_key key (length parts))))"

text \<open>The triple the loop appends for a key, and the test for a key it refuses.\<close>

definition key_triple :: "string \<Rightarrow> composite_key" where
  "key_triple key = (let parts = split (CHR ''|'') key in (parts ! 0, parts ! 1, parts ! 2))"

definition malformed :: "string \<Rightarrow> bool" where
  "malformed key = (length (split (CHR ''|'') key) \<noteq> 3)"

text \<open>\<open>list(zip(a, b, c))\<close>: triples up to the shortest of the three.\<close>

definition zip3 :: "string list \<Rightarrow> string list \<Rightarrow> string list \<Rightarrow> composite_key list" where
  "zip3 a b c = zip a (zip b c)"

definition invalid_file_format :: string where
  "invalid_file_format =
     ''Invalid file format: missing '' @ [CHR 0x27] @ ''study_keys'' @ [CHR 0x27] @ '' or ''
       @ [CHR 0x27] @ ''study_accessions'' @ [CHR 0x27] @ '' key''"

text \<open>
  \<open>load_embeddings_from_file\<close>: the file must exist; \<open>embeddings\<close> and \<open>dimensions\<close> are
  read first; then \<open>study_keys\<close> is looked for, then \<open>study_accessions\<close>.
\<close>

definition load_embeddings_from_file ::
  "string \<Rightarrow> 'a filesystem \<Rightarrow> error + (composite_key list \<times> 'a ndarray)" where
  "load_embeddings_from_file filepath fs =
     (case fs filepath of
        None \<Rightarrow> Inl (FileNotFoundError (''File not found: '' @ filepath))
      | Some data \<Rightarrow>
          (case npz_embeddings data of
             None \<Rightarrow> Inl (KeyError ''embeddings'')
           | Some embeddings \<Rightarrow>
               (case npz_dimensions data of
                  None \<Rightarrow> Inl (KeyError ''dimensions'')
                | Some dimensions \<Rightarrow>
                    (case npz_study_keys data of
                       Some study_keys \<Rightarrow>
                         (case parse_study_keys study_keys [] of
                            Inl e \<Rightarrow> Inl e
                          | Inr composite_keys \<Rightarrow> Inr (composite_keys, embeddings))
                     | None \<Rightarrow>
                         (case npz_study_accessions data of
                            Some study_accessions \<Rightarrow>
                              (case npz_snps data of
                                 None \<Rightarrow> Inl (KeyError ''snps'')
                               | Some snps \<Rightarrow>
                                   (case npz_risk_alleles data of
                                      None \<Rightarrow> Inl (KeyError ''risk_alleles'')
                                    | Some risk_alleles \<Rightarrow>
                                        Inr (zip3 study_accessions snps risk_alleles, embeddings)))
                          | None \<Rightarrow> Inl (ValueError invalid_file_format))))))"

section \<open>The two tables behind a connection\<close>

text \<open>
  A row of \<open>gwas_catalog\<close>: the three key columns and the four text columns the query
  passes through \<open>COALESCE\<close> (\<open>None\<close> is SQL's NULL). The key columns hold strings.
\<close>

record catalog_row =
  gc_study_accession :: string
  gc_snps :: string
  gc_strongest_snp_risk_allele :: string
  gc_mapped_trait :: "string option"
  gc_disease_trait :: "string option"
  gc_study :: "string option"
  gc_mapped_gene :: "string option"

text \<open>
  A row of \<open>study_embeddings\<close> without its key: the serialized vector and the two
  timestamps. The table has a unique constraint on the key (the \<open>ON CONFLICT\<close> target),
  so it is a map from keys to rows.
\<close>

record 'ts embedding_row =
  se_embedding :: string
  se_created_at :: "'ts"
  se_updated_at :: "'ts"

type_synonym 'ts table = "composite_key \<rightharpoonup> 'ts embedding_row"

text \<open>
  What a connection sees and what is committed: statements change \<open>study_embeddings\<close>,
  \<open>commit\<close> makes it durable and \<open>rollback\<close> returns to the durable table.
\<close>

record 'ts conn =
  gwas_catalog :: "catalog_row list"
  study_embeddings :: "'ts table"
  durable :: "'ts table"

definition commit :: "'ts conn \<Rightarrow> 'ts conn" where
  "commit conn = conn\<lparr>durable := study_embeddings conn\<rparr>"

definition rollback :: "'ts conn \<Rightarrow> 'ts conn" where
  "rollback conn = conn\<lparr>study_embeddings := durable conn\<rparr>"

section \<open>KeySelector: fetch_studies\<close>

definition coalesce :: "string option \<Rightarrow> string" where
  "coalesce v = (case v of None \<Rightarrow> [] | Some s \<Rightarrow> s)"

definition combined_text :: "catalog_row \<Rightarrow> string" where
  "combined_text gc =
     coalesce (gc_mapped_trait gc) @ '' '' @ coalesce (gc_disease_trait gc) @ '' '' @
     coalesce (gc_study gc) @ '' '' @ coalesce (gc_mapped_gene gc)"

definition key_of :: "catalog_row \<Rightarrow> composite_key" where
  "key_of gc = (gc_study_accession gc, gc_snps gc, gc_strongest_snp_risk_allele gc)"

text \<open>
  The query without its \<open>LIMIT\<close>: the catalog rows with no row of \<open>study_embeddings\<close>
  under the same three key columns (\<open>LEFT JOIN ... WHERE se.study_accession IS NULL\<close>),
  each as \<open>(study_accession, snps, strongest_snp_risk_allele, combined_text)\<close>, in the
  order of the catalog scan.
\<close>

definition missing_embeddings :: "'ts conn \<Rightarrow> (composite_key \<times> string) list" where
  "missing_embeddings conn =
     map (\<lambda>gc. (key_of gc, combined_text gc))
       (filter (\<lambda>gc. study_embeddings conn (key_of gc) = None) (gwas_catalog conn))"

text \<open>
  \<open>fetch_studies\<close>: \<open>if limit:\<close> adds \<open>LIMIT {limit}\<close> for a limit that is neither
  \<open>None\<close> nor \<open>0\<close>. \<open>LIMIT n\<close> keeps the first \<open>n\<close> rows of the result; for a
  negative \<open>n\<close> PostgreSQL refuses the query and SQLite applies no bound. The engine
  behind the connection is the one \<open>db_type\<close> names (\<open>get_db_connection\<close> returns both).
\<close>

definition fetch_studies ::
  "'ts conn \<Rightarrow> string \<Rightarrow> int option \<Rightarrow> error + (composite_key \<times> string) list" where
  "fetch_studies conn db_type limit =
     (let studies = missing_embeddings conn
      in case limit of
           None \<Rightarrow> Inr studies
         | Some n \<Rightarrow>
             if n = 0 then Inr studies
             else if 0 < n then Inr (take (nat n) studies)
             else if db_type = ''postgres''
               then Inl (DatabaseError ''LIMIT must not be negative'')
               else Inr studies)"

section \<open>VectorizationPort: generate_embeddings\<close>

definition prefixed_texts :: "string list \<Rightarrow> string list" where
  "prefixed_texts texts = map (\<lambda>text. ''search_document: '' @ strip text) texts"

text \<open>\<open>embeddings[:, :dimensions]\<close>: every row cut at the same stop index.\<close>

definition truncate_columns :: "int \<Rightarrow> 'a ndarray \<Rightarrow> 'a ndarray" where
  "truncate_columns dimensions embeddings =
     \<lparr>ncols = slice_stop dimensions (ncols embeddings),
      rows = map (take (slice_stop dimensions (ncols embeddings))) (rows embeddings)\<rparr>"

text \<open>
  \<open>generate_embeddings\<close>: \<open>model\<close> is \<open>model.encode\<close> with its fixed keyword arguments,
  taking the prefixed texts and the batch size and returning the two-dimensional array
  of normalized vectors (\<open>main\<close> calls it with at least one text).
\<close>

definition generate_embeddings ::
  "(string list \<Rightarrow> int \<Rightarrow> 'a ndarray) \<Rightarrow> string list \<Rightarrow> int \<Rightarrow> int \<Rightarrow> 'a ndarray" where
  "generate_embeddings model texts batch_size dimensions =
     (let embeddings = model (prefixed_texts texts) batch_size
      in if dimensions < int (ncols embeddings)
         then truncate_columns dimensions embeddings
         else embeddings)"

section \<open>EmbeddingStore: store_embeddings\<close>

text \<open>
  \<open>json.dumps(emb.tolist(), separators=(item_sep, ...))\<close> of a list of numbers;
  \<open>float_repr\<close> is the text of one number. The default item separator is \<open>", "\<close>.
\<close>

definition json_dumps :: "('a \<Rightarrow> string) \<Rightarrow> string \<Rightarrow> 'a list \<Rightarrow> string" where
  "json_dumps float_repr item_sep xs = ''['' @ join item_sep (map float_repr xs) @ '']''"

text \<open>
  One row of the PostgreSQL statement, \<open>INSERT ... ON CONFLICT (key) DO NOTHING\<close>: a
  key that has a row, from before or from an earlier row of the same statement, is
  skipped. \<open>NOW()\<close> is the start time of the transaction.
\<close>

definition insert_do_nothing ::
  "'ts \<Rightarrow> composite_key \<times> string \<Rightarrow> 'ts table \<Rightarrow> 'ts table" where
  "insert_do_nothing now row tbl =
     (case tbl (fst row) of
        None \<Rightarrow> tbl(fst row \<mapsto>
                  \<lparr>se_embedding = snd row, se_created_at = now, se_updated_at = now\<rparr>)
      | Some _ \<Rightarrow> tbl)"

definition execute_values ::
  "'ts \<Rightarrow> (composite_key \<times> string) list \<Rightarrow> 'ts conn \<Rightarrow> 'ts conn" where
  "execute_values now chunk conn =
     conn\<lparr>study_embeddings := fold (insert_do_nothing now) chunk (study_embeddings conn)\<rparr>"

text \<open>
  One execution of the SQLite statement, \<open>INSERT ... ON CONFLICT(key) DO UPDATE SET
  embedding = ?, updated_at = datetime('now')\<close>, with the parameters
  \<open>(key, embedding, embedding)\<close>: the fourth parameter is inserted, the fifth overwrites.
\<close>

definition insert_do_update ::
  "'ts \<Rightarrow> composite_key \<times> string \<times> string \<Rightarrow> 'ts table \<Rightarrow> 'ts table" where
  "insert_do_update now row tbl =
     (case tbl (fst row) of
        None \<Rightarrow> tbl(fst row \<mapsto>
                  \<lparr>se_embedding = fst (snd row), se_created_at = now, se_updated_at = now\<rparr>)
      | Some old \<Rightarrow> tbl(fst row \<mapsto>
                  old\<lparr>se_embedding := snd (snd row), se_updated_at := now\<rparr>))"

text \<open>
  \<open>cursor.executemany\<close>: the statement once per row of the batch, in order. \<open>clock j\<close>
  is the value of \<open>datetime('now')\<close> when row \<open>j\<close> of the upload is written; \<open>i\<close> is the
  position of the batch's first row.
\<close>

definition executemany ::
  "(nat \<Rightarrow> 'ts) \<Rightarrow> nat \<Rightarrow> (composite_key \<times> string \<times> string) list \<Rightarrow> 'ts conn \<Rightarrow> 'ts conn" where
  "executemany clock i batch_data conn =
     conn\<lparr>study_embeddings :=
       fold (\<lambda>(j, row). insert_do_update (clock j) row)
         (zip [i..<i + length batch_data] batch_data) (study_embeddings conn)\<rparr>"

definition data_tuples ::
  "('a \<Rightarrow> string) \<Rightarrow> composite_key list \<Rightarrow> 'a ndarray \<Rightarrow> (composite_key \<times> string) list" where
  "data_tuples float_repr composite_keys embeddings =
     map (\<lambda>(k, emb). (k, json_dumps float_repr '','' emb)) (zip composite_keys (rows embeddings))"

definition batch_data ::
  "('a \<Rightarrow> string) \<Rightarrow> composite_key list \<Rightarrow> 'a list list \<Rightarrow> (composite_key \<times> string \<times> string) list" where
  "batch_data float_repr batch_keys batch_embeddings =
     map (\<lambda>(k, emb). (k, json_dumps float_repr '', '' emb, json_dumps float_repr '', '' emb))
       (zip batch_keys batch_embeddings)"

definition chunk_size :: nat where
  "chunk_size = 10000"

text \<open>
  \<open>store_embeddings\<close>. With \<open>db_type == 'postgres'\<close>: all rows are prepared, sent in
  chunks of \<open>chunk_size\<close>, and committed once. Otherwise: for every \<open>i\<close> of
  \<open>range(0, total, batch_size)\<close> the slices of keys and vectors from \<open>i\<close> are zipped,
  written and committed; \<open>range\<close> raises for a step of \<open>0\<close> and is empty for a negative
  step.
\<close>

definition store_embeddings ::
  "('a \<Rightarrow> string) \<Rightarrow> 'ts \<Rightarrow> (nat \<Rightarrow> 'ts) \<Rightarrow> 'ts conn \<Rightarrow> string \<Rightarrow> composite_key list \<Rightarrow>
   'a ndarray \<Rightarrow> int \<Rightarrow> error + 'ts conn" where
  "store_embeddings float_repr now clock conn db_type composite_keys embeddings batch_size =
     (if db_type = ''postgres'' then
        (let tuples = data_tuples float_repr composite_keys embeddings
         in Inr (commit
              (fold (\<lambda>i. execute_values now (slice i chunk_size tuples))
                 (range_step (length tuples) chunk_size) conn)))
      else if batch_size = 0 then Inl (ValueError ''range() arg 3 must not be zero'')
      else if batch_size < 0 then Inr conn
      else
        Inr (fold
               (\<lambda>i c. commit
                  (executemany clock i
                     (batch_data float_repr
                        (slice i (nat batch_size) composite_keys)
                        (slice i (nat batch_size) (rows embeddings))) c))
               (range_step (length composite_keys) (nat batch_size)) conn))"

section \<open>The generate mode of main\<close>

record args =
  args_batch_size :: int
  args_dimensions :: int
  args_limit :: "int option"
  args_upload_batch_size :: int
  args_save_local :: "string option"

text \<open>
  The generate mode of \<open>main\<close> after the connection and the model are there: the exit
  status, the file system and the connection as the run leaves them. An empty fetch
  ends the run with status 0 before anything is generated; a failed fetch or store ends
  it with status 1, the store after a rollback; a failed local save is only reported.
\<close>

definition main_generate ::
  "(string list \<Rightarrow> int \<Rightarrow> 'a ndarray) \<Rightarrow> ('a \<Rightarrow> string) \<Rightarrow> 'ts \<Rightarrow> (nat \<Rightarrow> 'ts) \<Rightarrow> string \<Rightarrow>
   args \<Rightarrow> 'a filesystem \<times> 'ts conn \<Rightarrow> nat \<times> 'a filesystem \<times> 'ts conn" where
  "main_generate model float_repr now clock db_type args st =
     (let fs = fst st; conn = snd st
      in case fetch_studies conn db_type (args_limit args) of
           Inl e \<Rightarrow> (1, fs, conn)
         | Inr studies \<Rightarrow>
             if studies = [] then (0, fs, conn)
             else
               (let composite_keys = map fst studies;
                    texts = map snd studies;
                    embeddings = generate_embeddings model texts
                                   (args_batch_size args) (args_dimensions args);
                    fs' = (case args_save_local args of
                             None \<Rightarrow> fs
                           | Some path \<Rightarrow>
                               if path = [] then fs
                               else fst (save_embeddings_to_file path composite_keys embeddings fs))
                in case store_embeddings float_repr now clock conn db_type composite_keys
                          embeddings (args_upload_batch_size args) of
                     Inl e \<Rightarrow> (1, fs', rollback conn)
                   | Inr conn' \<Rightarrow> (0, fs', conn')))"

section \<open>Example inputs\<close>

text \<open>An archive that carries the legacy entry and the three current entries at once.\<close>

definition both_markers :: "nat npz" where
  "both_markers =
     \<lparr>npz_study_keys = Some [''GCST0001|rs123|A''],
      npz_study_accessions = Some [''GCST0002''],
      npz_snps = Some [''rs456''],
      npz_risk_alleles = Some [''T''],
      npz_embeddings = Some \<lparr>ncols = 2, rows = [[1, 2]]\<rparr>,
      npz_dimensions = Some 2\<rparr>"

text \<open>A legacy archive over given key strings.\<close>

definition legacy_archive :: "string list \<Rightarrow> nat npz" where
  "legacy_archive study_keys =
     \<lparr>npz_study_keys = Some study_keys,
      npz_study_accessions = None,
      npz_snps = None,
      npz_risk_alleles = None,
      npz_embeddings = Some \<lparr>ncols = 2, rows = [[1, 2], [3, 4]]\<rparr>,
      npz_dimensions = Some 2\<rparr>"

text \<open>A current archive with one key and two vectors of two components.\<close>

definition mismatched_archive :: "nat npz" where
  "mismatched_archive =
     \<lparr>npz_study_keys = None,
      npz_study_accessions = Some [''GCST0001''],
      npz_snps = Some [''rs123''],
      npz_risk_alleles = Some [''A''],
      npz_embeddings = Some \<lparr>ncols = 2, rows = [[1, 2], [3, 4]]\<rparr>,
      npz_dimensions = Some 2\<rparr>"

text \<open>A model with three native dimensions, for running \<open>generate_embeddings\<close>.\<close>

definition example_model :: "string list \<Rightarrow> int \<Rightarrow> nat ndarray" where
  "example_model texts batch_size = \<lparr>ncols = 3, rows = map (\<lambda>text. [length text, 7, 9]) texts\<rparr>"

text \<open>Catalog rows, a stored row, and connections over two and three catalog rows.\<close>

definition study_row :: "string \<Rightarrow> string \<Rightarrow> string \<Rightarrow> string option \<Rightarrow> catalog_row" where
  "study_row accession snps allele trait =
     \<lparr>gc_study_accession = accession, gc_snps = snps, gc_strongest_snp_risk_allele = allele,
      gc_mapped_trait = trait, gc_disease_trait = Some ''asthma'', gc_study = None,
      gc_mapped_gene = Some ''IL33''\<rparr>"

definition stored_row :: "nat embedding_row" where
  "stored_row = \<lparr>se_embedding = ''[0.6,0.8]'', se_created_at = 1, se_updated_at = 1\<rparr>"

definition two_studies :: "nat conn" where
  "two_studies =
     \<lparr>gwas_catalog = [study_row ''GCST0001'' ''rs123'' ''A'' None,
                      study_row ''GCST0002'' ''rs456'' ''T'' (Some ''lung'')],
      study_embeddings = Map.empty,
      durable = Map.empty\<rparr>"

definition three_studies :: "nat conn" where
  "three_studies =
     \<lparr>gwas_catalog = [study_row ''GCST0001'' ''rs123'' ''A'' None,
                      study_row ''GCST0002'' ''rs456'' ''T'' (Some ''lung''),
                      study_row ''GCST0003'' ''rs789'' ''G'' None],
      study_embeddings = [(''GCST0001'', ''rs123'', ''A'') \<mapsto> stored_row,
                          (''GCST0003'', ''rs789'', ''G'') \<mapsto> stored_row],
      durable = [(''GCST0001'', ''rs123'', ''A'') \<mapsto> stored_row,
                 (''GCST0003'', ''rs789'', ''G'') \<mapsto> stored_row]\<rparr>"

text \<open>A connection with empty tables, and the defaults of the command line.\<close>

definition empty_store :: "nat conn" where
  "empty_store = \<lparr>gwas_catalog = [], study_embeddings = Map.empty, durable = Map.empty\<rparr>"

definition default_args :: args where
  "default_args =
     \<lparr>args_batch_size = 512, args_dimensions = 512, args_limit = None,
      args_upload_batch_size = 1000, args_save_local = None\<rparr>"

section \<open>Properties of the local cache\<close>

lemma split_nonempty: "split sep s \<noteq> []"
  by (induction s) (auto simp: Let_def)

lemma length_split: "length (split sep s) = Suc (length (filter (\<lambda>c. c = sep) s))"
  by (induction s) (auto simp: Let_def split_nonempty)

lemma zip3_components:
  "zip3 (map (\<lambda>k. fst k) ks) (map (\<lambda>k. fst (snd k)) ks) (map (\<lambda>k. snd (snd k)) ks) = ks"
  by (induction ks) (auto simp: zip3_def)

lemma parse_study_keys_ok:
  "find malformed ks = None \<Longrightarrow> parse_study_keys ks acc = Inr (acc @ map key_triple ks)"
  by (induction ks arbitrary: acc)
     (auto simp: Let_def key_triple_def malformed_def split: if_splits)

lemma parse_study_keys_bad:
  "find malformed ks = Some bad \<Longrightarrow>
   parse_study_keys ks acc =
     Inl (ValueError (invalid_study_key bad (length (split (CHR ''|'') bad))))"
  by (induction ks arbitrary: acc) (auto simp: Let_def malformed_def split: if_splits)

lemma load_legacy:
  assumes "fs filepath = Some data"
    and "npz_embeddings data = Some embeddings"
    and "npz_dimensions data = Some d"
    and "npz_study_keys data = Some study_keys"
  shows "load_embeddings_from_file filepath fs =
           (case parse_study_keys study_keys [] of
              Inl e \<Rightarrow> Inl e
            | Inr composite_keys \<Rightarrow> Inr (composite_keys, embeddings))"
  using assms by (simp add: load_embeddings_from_file_def)

lemma find_malformed_None:
  "find malformed ks = None \<longleftrightarrow> (\<forall>key\<in>set ks. length (split (CHR ''|'') key) = 3)"
  by (auto simp: find_None_iff malformed_def)

text \<open>
  Claim C4, as the code has it. The claim puts the current schema first; the code looks
  for \<open>study_keys\<close> first. For an archive that exists and holds \<open>embeddings\<close> and
  \<open>dimensions\<close>: when \<open>study_keys\<close> is present the legacy keys are parsed, whatever
  else the archive holds; only when it is absent are the three parallel arrays zipped;
  when \<open>study_keys\<close> and \<open>study_accessions\<close> are both absent the load fails with the
  invalid-format error.
\<close>

theorem load_detection_order:
  assumes "fs filepath = Some data"
    and "npz_embeddings data = Some embeddings"
    and "npz_dimensions data = Some d"
  shows "(\<forall>study_keys. npz_study_keys data = Some study_keys \<longrightarrow>
            load_embeddings_from_file filepath fs =
              (case parse_study_keys study_keys [] of
                 Inl e \<Rightarrow> Inl e
               | Inr composite_keys \<Rightarrow> Inr (composite_keys, embeddings)))
       \<and> (\<forall>a s r. npz_study_keys data = None \<and> npz_study_accessions data = Some a \<and>
            npz_snps data = Some s \<and> npz_risk_alleles data = Some r \<longrightarrow>
            load_embeddings_from_file filepath fs = Inr (zip3 a s r, embeddings))
       \<and> (npz_study_keys data = None \<and> npz_study_accessions data = None \<longrightarrow>
            load_embeddings_from_file filepath fs = Inl (ValueError invalid_file_format))"
  using assms by (simp add: load_embeddings_from_file_def)

theorem load_detection_order_witness:
  "load_embeddings_from_file ''cache.npz'' [''cache.npz'' \<mapsto> both_markers]
     = Inr ([(''GCST0001'', ''rs123'', ''A'')], \<lparr>ncols = 2, rows = [[1, 2]]\<rparr>)
   \<and> load_embeddings_from_file ''cache.npz''
        [''cache.npz'' \<mapsto> both_markers\<lparr>npz_study_keys := None\<rparr>]
     = Inr ([(''GCST0002'', ''rs456'', ''T'')], \<lparr>ncols = 2, rows = [[1, 2]]\<rparr>)
   \<and> load_embeddings_from_file ''cache.npz''
        [''cache.npz'' \<mapsto> both_markers\<lparr>npz_study_keys := None, npz_study_accessions := None\<rparr>]
     = Inl (ValueError invalid_file_format)"
  using load_detection_order [of "[''cache.npz'' \<mapsto> both_markers]" "''cache.npz''" both_markers
          "\<lparr>ncols = 2, rows = [[1, 2]]\<rparr>" 2]
        load_detection_order [of "[''cache.npz'' \<mapsto> both_markers\<lparr>npz_study_keys := None\<rparr>]"
          "''cache.npz''" "both_markers\<lparr>npz_study_keys := None\<rparr>"
          "\<lparr>ncols = 2, rows = [[1, 2]]\<rparr>" 2]
        load_detection_order [of "[''cache.npz'' \<mapsto> both_markers\<lparr>npz_study_keys := None, npz_study_accessions := None\<rparr>]"
          "''cache.npz''" "both_markers\<lparr>npz_study_keys := None, npz_study_accessions := None\<rparr>"
          "\<lparr>ncols = 2, rows = [[1, 2]]\<rparr>" 2]
  by (simp add: both_markers_def zip3_def Let_def)

text \<open>
  The claim as stated fails on an archive with both sets of markers: the keys returned
  are the legacy ones, not the zipped current ones.
\<close>

theorem load_current_schema_first_counterexample:
  "load_embeddings_from_file ''cache.npz'' [''cache.npz'' \<mapsto> both_markers]
     = Inr ([(''GCST0001'', ''rs123'', ''A'')], \<lparr>ncols = 2, rows = [[1, 2]]\<rparr>)
   \<and> load_embeddings_from_file ''cache.npz'' [''cache.npz'' \<mapsto> both_markers]
     \<noteq> Inr (zip3 [''GCST0002''] [''rs456''] [''T''], \<lparr>ncols = 2, rows = [[1, 2]]\<rparr>)"
  by (simp add: load_embeddings_from_file_def both_markers_def zip3_def Let_def)

text \<open>
  Claim C5: loading the file that \<open>save_embeddings_to_file\<close> wrote returns the saved keys,
  in order, and the saved array itself. Equal key lists have equal key sets, and equal
  arrays are within every tolerance. The file written is \<open>npz_path filepath\<close>.
\<close>

theorem save_then_load:
  "load_embeddings_from_file (npz_path filepath)
     (fst (save_embeddings_to_file filepath composite_keys embeddings fs))
   = Inr (composite_keys, embeddings)"
  by (simp add: save_embeddings_to_file_def load_embeddings_from_file_def Let_def
        zip3_components split: option.splits)

text \<open>
  The file written is \<open>npz_path filepath\<close>: for a path without the suffix, and no file
  under the path itself, the size check of the save raises and a load from the path
  itself finds no file.
\<close>

lemma save_unsuffixed_path:
  assumes "\<not> endswith filepath ''.npz''" and "fs filepath = None"
  shows "snd (save_embeddings_to_file filepath composite_keys embeddings fs)
           = Inl (FileNotFoundError filepath)
       \<and> load_embeddings_from_file filepath
             (fst (save_embeddings_to_file filepath composite_keys embeddings fs))
           = Inl (FileNotFoundError (''File not found: '' @ filepath))"
  using assms
  by (simp add: save_embeddings_to_file_def load_embeddings_from_file_def npz_path_def Let_def)

text \<open>
  Claim C6: on a legacy archive the load succeeds exactly when every key string splits
  on \<open>|\<close> into three parts, and then returns the triple of every key; otherwise it
  returns no keys at all but the \<open>ValueError\<close> whose message carries the first key that
  does not split into three parts. Three parts are two delimiters.
\<close>

theorem legacy_keys_three_parts:
  assumes "fs filepath = Some data"
    and "npz_embeddings data = Some embeddings"
    and "npz_dimensions data = Some d"
    and "npz_study_keys data = Some study_keys"
  shows "((\<forall>key \<in> set study_keys. length (split (CHR ''|'') key) = 3) \<longrightarrow>
            load_embeddings_from_file filepath fs = Inr (map key_triple study_keys, embeddings))
       \<and> (\<forall>bad. find malformed study_keys = Some bad \<longrightarrow>
            load_embeddings_from_file filepath fs =
              Inl (ValueError (invalid_study_key bad (length (split (CHR ''|'') bad)))))
       \<and> ((\<exists>result. load_embeddings_from_file filepath fs = Inr result) \<longleftrightarrow>
            (\<forall>key \<in> set study_keys. length (split (CHR ''|'') key) = 3))
       \<and> (\<forall>key. length (split (CHR ''|'') key) = 3 \<longleftrightarrow>
            length (filter (\<lambda>c. c = CHR ''|'') key) = 2)"
proof -
  let ?ok = "\<forall>key \<in> set study_keys. length (split (CHR ''|'') key) = 3"
  have load: "load_embeddings_from_file filepath fs =
           (case parse_study_keys study_keys [] of
              Inl e \<Rightarrow> Inl e
            | Inr composite_keys \<Rightarrow> Inr (composite_keys, embeddings))"
    using assms by (rule load_legacy)
  have good: "load_embeddings_from_file filepath fs = Inr (map key_triple study_keys, embeddings)"
    if ?ok
    using that load parse_study_keys_ok [of study_keys "[]"] by (simp add: find_malformed_None)
  have bad: "load_embeddings_from_file filepath fs =
              Inl (ValueError (invalid_study_key bad (length (split (CHR ''|'') bad))))"
    if "find malformed study_keys = Some bad" for bad
    using that load parse_study_keys_bad [of study_keys bad "[]"] by simp
  have iff: "(\<exists>result. load_embeddings_from_file filepath fs = Inr result) \<longleftrightarrow> ?ok"
  proof
    assume ex: "\<exists>result. load_embeddings_from_file filepath fs = Inr result"
    show ?ok
    proof (cases "find malformed study_keys")
      case None
      then show ?thesis by (simp add: find_malformed_None)
    next
      case (Some b)
      from bad [OF Some] ex show ?thesis by simp
    qed
  next
    assume ?ok
    from good [OF this] show "\<exists>result. load_embeddings_from_file filepath fs = Inr result" by simp
  qed
  have delims: "\<forall>key. length (split (CHR ''|'') key) = 3 \<longleftrightarrow>
            length (filter (\<lambda>c. c = CHR ''|'') key) = 2"
    by (simp add: length_split)
  from good bad iff delims show ?thesis by blast
qed

theorem legacy_keys_three_parts_witness:
  "load_embeddings_from_file ''old.npz''
       [''old.npz'' \<mapsto> legacy_archive [''GCST0001|rs123|A'', ''GCST0002|rs9|C'']]
     = Inr ([(''GCST0001'', ''rs123'', ''A''), (''GCST0002'', ''rs9'', ''C'')],
            \<lparr>ncols = 2, rows = [[1, 2], [3, 4]]\<rparr>)
   \<and> load_embeddings_from_file ''old.npz''
       [''old.npz'' \<mapsto> legacy_archive [''GCST0001|rs123|A'', ''GCST0002|rs9'']]
     = Inl (ValueError ''Invalid study_key format: GCST0002|rs9 (expected 3 parts, got 2)'')"
proof -
  have digit: "char_of (50::nat) = CHR ''2''" by code_simp
  show ?thesis
    using legacy_keys_three_parts
          [of "[''old.npz'' \<mapsto> legacy_archive [''GCST0001|rs123|A'', ''GCST0002|rs9|C'']]"
              "''old.npz''" "legacy_archive [''GCST0001|rs123|A'', ''GCST0002|rs9|C'']"
              "\<lparr>ncols = 2, rows = [[1, 2], [3, 4]]\<rparr>" 2
              "[''GCST0001|rs123|A'', ''GCST0002|rs9|C'']"]
        legacy_keys_three_parts
          [of "[''old.npz'' \<mapsto> legacy_archive [''GCST0001|rs123|A'', ''GCST0002|rs9'']]"
              "''old.npz''" "legacy_archive [''GCST0001|rs123|A'', ''GCST0002|rs9'']"
              "\<lparr>ncols = 2, rows = [[1, 2], [3, 4]]\<rparr>" 2
              "[''GCST0001|rs123|A'', ''GCST0002|rs9'']"]
    by (simp add: legacy_archive_def malformed_def key_triple_def invalid_study_key_def
          Let_def digit)
qed

text \<open>
  Claim C10: the dimension scalar has no influence on the result of the load, a
  successful load returns the archive's \<open>embeddings\<close> entry as it is, and a current
  archive loads whatever its dimension scalar, its column count and its numbers of keys
  and rows are.
\<close>

theorem load_ignores_dimensions:
  "load_embeddings_from_file filepath (fs(filepath \<mapsto> data\<lparr>npz_dimensions := Some d\<rparr>))
     = load_embeddings_from_file filepath (fs(filepath \<mapsto> data\<lparr>npz_dimensions := Some d'\<rparr>))
   \<and> (\<forall>keys result. load_embeddings_from_file filepath (fs(filepath \<mapsto> data)) = Inr (keys, result)
         \<longrightarrow> npz_embeddings data = Some result)
   \<and> (\<forall>a s r embeddings.
         npz_study_keys data = None \<and> npz_study_accessions data = Some a \<and>
         npz_snps data = Some s \<and> npz_risk_alleles data = Some r \<and>
         npz_embeddings data = Some embeddings \<longrightarrow>
         load_embeddings_from_file filepath (fs(filepath \<mapsto> data\<lparr>npz_dimensions := Some d\<rparr>))
           = Inr (zip3 a s r, embeddings))"
  by (auto simp: load_embeddings_from_file_def split: option.splits sum.splits)

theorem load_ignores_dimensions_witness:
  "load_embeddings_from_file ''cache.npz''
      [''cache.npz'' \<mapsto> mismatched_archive\<lparr>npz_dimensions := Some 768\<rparr>]
     = Inr ([(''GCST0001'', ''rs123'', ''A'')], \<lparr>ncols = 2, rows = [[1, 2], [3, 4]]\<rparr>)"
  using load_ignores_dimensions [where filepath = "''cache.npz''" and fs = Map.empty
          and data = mismatched_archive and d = 768 and d' = 2, THEN conjunct2, THEN conjunct2]
  by (simp add: mismatched_archive_def zip3_def)

section \<open>Properties of the key selection\<close>

lemma fetch_subset:
  "fetch_studies conn db_type limit = Inr studies \<Longrightarrow> set studies \<subseteq> set (missing_embeddings conn)"
  by (auto simp: fetch_studies_def Let_def split: option.splits if_splits dest: in_set_takeD)

lemma missing_embeddings_set:
  "set (missing_embeddings conn) =
     {(key_of gc, combined_text gc) | gc.
        gc \<in> set (gwas_catalog conn) \<and> study_embeddings conn (key_of gc) = None}"
  by (auto simp: missing_embeddings_def)

lemma fetch_limit_positive:
  "0 < n \<Longrightarrow> fetch_studies conn db_type (Some n) = Inr (take (nat n) (missing_embeddings conn))"
  by (simp add: fetch_studies_def)

text \<open>
  Claim C3, as the code has it. Called without a limit, \<open>fetch_studies\<close> returns the
  catalog records whose key has no row in \<open>study_embeddings\<close>, all of them and no
  other; with any limit, what it returns is among these records, so a key present in
  both tables is never returned.
\<close>

theorem anti_join:
  "fetch_studies conn db_type None = Inr (missing_embeddings conn)
   \<and> set (missing_embeddings conn) =
       {(key_of gc, combined_text gc) | gc.
          gc \<in> set (gwas_catalog conn) \<and> study_embeddings conn (key_of gc) = None}
   \<and> (\<forall>limit studies. fetch_studies conn db_type limit = Inr studies \<longrightarrow>
         set studies \<subseteq> set (missing_embeddings conn))"
  using fetch_subset [of conn db_type] missing_embeddings_set [of conn]
  by (simp add: fetch_studies_def)

theorem anti_join_witness:
  "fetch_studies three_studies ''sqlite'' None
     = Inr [((''GCST0002'', ''rs456'', ''T''), ''lung asthma  IL33'')]
   \<and> set (missing_embeddings three_studies)
     = {((''GCST0002'', ''rs456'', ''T''), ''lung asthma  IL33'')}"
proof -
  have m: "missing_embeddings three_studies
             = [((''GCST0002'', ''rs456'', ''T''), ''lung asthma  IL33'')]"
    by (simp add: missing_embeddings_def three_studies_def study_row_def key_of_def
          combined_text_def coalesce_def)
  from anti_join [of three_studies "''sqlite''"] m show ?thesis by simp
qed

text \<open>
  The claim as stated fails under a limit: with \<open>limit = 1\<close> and two catalog records
  whose keys are only in the source table, the second record is not returned.
\<close>

theorem fetch_limited_counterexample:
  "fetch_studies two_studies ''sqlite'' (Some 1)
     = Inr [((''GCST0001'', ''rs123'', ''A''), '' asthma  IL33'')]
   \<and> study_embeddings two_studies (''GCST0002'', ''rs456'', ''T'') = None
   \<and> key_of (gwas_catalog two_studies ! 1) = (''GCST0002'', ''rs456'', ''T'')"
  by (simp add: fetch_studies_def missing_embeddings_def two_studies_def study_row_def
        key_of_def combined_text_def coalesce_def)

text \<open>
  Claim C9 at \<open>limit = 0\<close>: \<open>if limit:\<close> is false for \<open>0\<close>, no \<open>LIMIT\<close> is added, and
  both catalog records are returned where the claim allows none.
\<close>

theorem fetch_limit_zero_returns_all:
  "fetch_studies two_studies ''sqlite'' (Some 0)
     = Inr [((''GCST0001'', ''rs123'', ''A''), '' asthma  IL33''),
            ((''GCST0002'', ''rs456'', ''T''), ''lung asthma  IL33'')]
   \<and> fetch_studies two_studies ''postgres'' (Some 0)
     = Inr [((''GCST0001'', ''rs123'', ''A''), '' asthma  IL33''),
            ((''GCST0002'', ''rs456'', ''T''), ''lung asthma  IL33'')]"
  by (simp add: fetch_studies_def missing_embeddings_def two_studies_def study_row_def
        key_of_def combined_text_def coalesce_def)

section \<open>Properties of the vectorization wrapper\<close>

lemma rev_dropWhile_takeWhile:
  "xs = rev (dropWhile P (rev xs)) @ rev (takeWhile P (rev xs))"
  by (metis rev_append rev_rev_ident takeWhile_dropWhile_id)

lemma strip_decompose:
  "\<exists>l r. text = l @ strip text @ r \<and> list_all isspace l \<and> list_all isspace r"
proof -
  let ?rest = "dropWhile isspace text"
  have a: "text = takeWhile isspace text @ ?rest" by simp
  have b: "?rest = strip text @ rev (takeWhile isspace (rev ?rest))"
    unfolding strip_def by (rule rev_dropWhile_takeWhile)
  have c: "list_all isspace (takeWhile isspace text)"
    by (simp add: list_all_iff) (meson set_takeWhileD)
  have d: "list_all isspace (rev (takeWhile isspace (rev ?rest)))"
    by (simp add: list_all_iff) (meson set_takeWhileD)
  from a b have "text = takeWhile isspace text @ strip text @ rev (takeWhile isspace (rev ?rest))"
    by metis
  with c d show ?thesis by blast
qed

lemma strip_ends:
  "strip text = [] \<or> (\<not> isspace (hd (strip text)) \<and> \<not> isspace (last (strip text)))"
proof (cases "strip text = []")
  case True then show ?thesis by simp
next
  case False
  let ?rest = "dropWhile isspace text"
  let ?d = "dropWhile isspace (rev ?rest)"
  have s: "strip text = rev ?d" by (simp add: strip_def)
  with False have ne: "?d \<noteq> []" by simp
  then have "\<not> isspace (hd ?d)" by (rule hd_dropWhile)
  then have l: "\<not> isspace (last (strip text))" using ne s by (simp add: last_rev)
  have r: "?rest = strip text @ rev (takeWhile isspace (rev ?rest))"
    unfolding strip_def by (rule rev_dropWhile_takeWhile)
  then have "?rest \<noteq> []" using False by (metis append_is_Nil_conv)
  then have "\<not> isspace (hd ?rest)" by (rule hd_dropWhile)
  moreover have "hd ?rest = hd (strip text)" using r False by (metis hd_append2)
  ultimately show ?thesis using l by simp
qed

lemma strip_clean:
  assumes "text \<noteq> []" "\<not> isspace (hd text)" "\<not> isspace (last text)"
  shows "strip text = text"
proof -
  have a: "dropWhile isspace text = text"
    using assms by (simp add: dropWhile_eq_self_iff)
  have "dropWhile isspace (rev text) = rev text"
    using assms by (simp add: dropWhile_eq_self_iff hd_rev)
  with a show ?thesis by (simp add: strip_def)
qed

text \<open>
  Claim C7: for a requested dimension \<open>D\<close> from \<open>0\<close> up to below the native one, the
  result of \<open>generate_embeddings\<close> has \<open>D\<close> columns and every row is the first \<open>D\<close>
  components of the row the model returned, nothing else done to it; for \<open>D\<close> equal to
  the native dimension, or above it, the result is the model's output itself.
\<close>

theorem truncation_prefix:
  fixes model :: "string list \<Rightarrow> int \<Rightarrow> 'a ndarray"
  defines "native \<equiv> (\<lambda>texts batch_size. model (prefixed_texts texts) batch_size)"
  shows "(0 \<le> D \<and> D < int (ncols (native texts batch_size)) \<longrightarrow>
            generate_embeddings model texts batch_size D =
              \<lparr>ncols = nat D, rows = map (take (nat D)) (rows (native texts batch_size))\<rparr>)
       \<and> (int (ncols (native texts batch_size)) \<le> D \<longrightarrow>
            generate_embeddings model texts batch_size D = native texts batch_size)"
  by (auto simp: generate_embeddings_def truncate_columns_def slice_stop_def Let_def native_def min_def)

theorem truncation_prefix_witness:
  "generate_embeddings example_model [''asthma'', ''lung''] 512 2
     = \<lparr>ncols = 2, rows = [[23, 7], [21, 7]]\<rparr>
   \<and> generate_embeddings example_model [''asthma'', ''lung''] 512 3
     = \<lparr>ncols = 3, rows = [[23, 7, 9], [21, 7, 9]]\<rparr>"
  using truncation_prefix [of 2 example_model "[''asthma'', ''lung'']" 512]
        truncation_prefix [of 3 example_model "[''asthma'', ''lung'']" 512]
  by (simp add: example_model_def prefixed_texts_def strip_def isspace_def)

text \<open>
  A negative \<open>dimensions\<close> is a slice stop counted from the end: the rows lose their
  last components.
\<close>

lemma negative_dimensions:
  assumes "D < 0"
  shows "generate_embeddings model texts batch_size D
           = (let native = model (prefixed_texts texts) batch_size
              in \<lparr>ncols = nat (int (ncols native) + D),
                  rows = map (take (nat (int (ncols native) + D))) (rows native)\<rparr>)"
  using assms
  by (simp add: generate_embeddings_def truncate_columns_def slice_stop_def Let_def)

text \<open>
  Claim C8, as the code has it. The strings passed to the model are the marker followed
  by \<open>text.strip()\<close>: the input text is its stripped form between a run of leading and
  a run of trailing whitespace, the stripped form neither starts nor ends with
  whitespace, and a text that neither starts nor ends with whitespace is passed as the
  marker followed by the text itself.
\<close>

theorem prefix_after_strip:
  "prefixed_texts texts = map (\<lambda>text. ''search_document: '' @ strip text) texts
   \<and> (\<exists>l r. text = l @ strip text @ r \<and> list_all isspace l \<and> list_all isspace r)
   \<and> (strip text = [] \<or> (\<not> isspace (hd (strip text)) \<and> \<not> isspace (last (strip text))))
   \<and> (text \<noteq> [] \<and> \<not> isspace (hd text) \<and> \<not> isspace (last text) \<longrightarrow>
        prefixed_texts [text] = [''search_document: '' @ text])"
  using strip_decompose [of "text"] strip_ends [of "text"] strip_clean [of "text"]
  by (simp add: prefixed_texts_def)

theorem prefix_after_strip_witness:
  "prefixed_texts [''asthma IL33''] = [''search_document: asthma IL33'']"
  using prefix_after_strip [of "[]" "''asthma IL33''"]
  by (simp add: isspace_def)

text \<open>
  The claim as stated fails on a text with leading whitespace, as \<open>combined_text\<close> is
  for a row without \<open>mapped_trait\<close>: the leading space is removed as well.
\<close>

theorem prefix_only_counterexample:
  "prefixed_texts ['' asthma  IL33''] = [''search_document: asthma  IL33'']
   \<and> prefixed_texts ['' asthma  IL33''] \<noteq> [''search_document: '' @ '' asthma  IL33'']"
  by (simp add: prefixed_texts_def strip_def isspace_def)

section \<open>Properties of the embedding store\<close>

text \<open>The chunks of a list, taken at the starts \<open>range_step\<close> gives, make up the list.\<close>

lemma range_step_covers:
  assumes "0 < (step::nat)"
  shows "n \<le> ((n + step - 1) div step) * step"
proof -
  have "n + step - 1 = ((n + step - 1) div step) * step + (n + step - 1) mod step"
    by simp
  moreover have "(n + step - 1) mod step < step" using assms by simp
  ultimately show ?thesis by linarith
qed

lemma concat_slices:
  "concat (map (\<lambda>j. slice (j * step) step xs) [0..<m]) = take (m * step) xs"
proof (induction m)
  case 0
  then show ?case by simp
next
  case (Suc m)
  have "take (Suc m * step) xs = take (m * step) xs @ take step (drop (m * step) xs)"
    using take_add [of "m * step" step xs] by (simp only: mult_Suc add.commute)
  with Suc show ?case by (simp add: slice_def)
qed

lemma concat_range_step:
  assumes "0 < step" and "length xs \<le> n"
  shows "concat (map (\<lambda>i. slice i step xs) (range_step n step)) = xs"
proof -
  have "concat (map (\<lambda>i. slice i step xs) (range_step n step))
          = concat (map (\<lambda>j. slice (j * step) step xs) [0..<(n + step - 1) div step])"
    by (simp add: range_step_def comp_def)
  also have "\<dots> = take (((n + step - 1) div step) * step) xs"
    by (rule concat_slices)
  also have "\<dots> = xs"
    using range_step_covers [OF assms(1), of n] assms(2) by simp
  finally show ?thesis .
qed

lemma concat_enumerate_slices:
  "concat (map (\<lambda>j. enumerate (j * step) (slice (j * step) step xs)) [0..<m])
     = enumerate 0 (take (m * step) xs)"
proof (induction m)
  case 0
  then show ?case by simp
next
  case (Suc m)
  have split: "take (Suc m * step) xs = take (m * step) xs @ slice (m * step) step xs"
    using take_add [of "m * step" step xs] by (simp only: mult_Suc add.commute slice_def)
  show ?case
  proof (cases "m * step \<le> length xs")
    case True
    then have "length (take (m * step) xs) = m * step" by simp
    with Suc split show ?thesis by (simp add: enumerate_append_eq)
  next
    case False
    then have "slice (m * step) step xs = []" by (simp add: slice_def)
    with Suc split show ?thesis by simp
  qed
qed

lemma concat_enumerate_range_step:
  assumes "0 < step" and "length xs \<le> n"
  shows "concat (map (\<lambda>i. enumerate i (slice i step xs)) (range_step n step)) = enumerate 0 xs"
proof -
  have "concat (map (\<lambda>i. enumerate i (slice i step xs)) (range_step n step))
          = concat (map (\<lambda>j. enumerate (j * step) (slice (j * step) step xs))
              [0..<(n + step - 1) div step])"
    by (simp add: range_step_def comp_def)
  also have "\<dots> = enumerate 0 (take (((n + step - 1) div step) * step) xs)"
    by (rule concat_enumerate_slices)
  also have "\<dots> = enumerate 0 xs"
    using range_step_covers [OF assms(1), of n] assms(2) by simp
  finally show ?thesis .
qed

lemma batch_data_slice:
  "batch_data float_repr (slice i n ks) (slice i n es) = slice i n (batch_data float_repr ks es)"
  by (simp add: batch_data_def slice_def take_zip drop_zip take_map drop_map)

lemma fold_execute_values:
  "fold (\<lambda>i. execute_values now (f i)) starts conn
     = conn\<lparr>study_embeddings :=
         fold (insert_do_nothing now) (concat (map f starts)) (study_embeddings conn)\<rparr>"
  by (induction starts arbitrary: conn) (simp_all add: execute_values_def)

lemma executemany_enumerate:
  "executemany clock i batch conn
     = conn\<lparr>study_embeddings :=
         fold (\<lambda>(j, row). insert_do_update (clock j) row) (enumerate i batch)
           (study_embeddings conn)\<rparr>"
  by (simp add: executemany_def enumerate_eq_zip)

lemma fold_executemany:
  "study_embeddings (fold (\<lambda>i c. commit (executemany clock i (g i) c)) starts conn)
     = fold (\<lambda>(j, row). insert_do_update (clock j) row)
         (concat (map (\<lambda>i. enumerate i (g i)) starts)) (study_embeddings conn)
   \<and> gwas_catalog (fold (\<lambda>i c. commit (executemany clock i (g i) c)) starts conn)
     = gwas_catalog conn"
  by (induction starts arbitrary: conn) (simp_all add: executemany_enumerate commit_def)

lemma store_postgres:
  "store_embeddings float_repr now clock conn ''postgres'' composite_keys embeddings batch_size
     = Inr (commit (conn\<lparr>study_embeddings :=
         fold (insert_do_nothing now) (data_tuples float_repr composite_keys embeddings)
           (study_embeddings conn)\<rparr>))"
  by (simp add: store_embeddings_def Let_def fold_execute_values concat_range_step chunk_size_def)

lemma length_batch_data:
  "length (batch_data float_repr ks es) = min (length ks) (length es)"
  by (simp add: batch_data_def)

lemma map_fst_batch_data:
  "map fst (batch_data float_repr ks es) = take (length es) ks"
  by (auto simp: batch_data_def map_fst_zip_take comp_def case_prod_unfold min_def)

lemma store_sqlite:
  assumes "db_type \<noteq> ''postgres''" and "0 < batch_size"
  shows "\<exists>c. store_embeddings float_repr now clock conn db_type composite_keys embeddings batch_size
               = Inr c
           \<and> study_embeddings c
               = fold (\<lambda>(j, row). insert_do_update (clock j) row)
                   (enumerate 0 (batch_data float_repr composite_keys (rows embeddings)))
                   (study_embeddings conn)
           \<and> gwas_catalog c = gwas_catalog conn"
proof -
  let ?all = "batch_data float_repr composite_keys (rows embeddings)"
  let ?n = "nat batch_size"
  have pos: "0 < ?n" using assms(2) by simp
  have "concat (map (\<lambda>i. enumerate i (batch_data float_repr (slice i ?n composite_keys)
                                          (slice i ?n (rows embeddings))))
                 (range_step (length composite_keys) ?n))
          = enumerate 0 ?all"
    using concat_enumerate_range_step [OF pos, of ?all "length composite_keys"]
    by (simp add: batch_data_slice length_batch_data)
  then show ?thesis
    using assms fold_executemany [of clock
        "\<lambda>i. batch_data float_repr (slice i ?n composite_keys) (slice i ?n (rows embeddings))"
        "range_step (length composite_keys) ?n" conn]
    by (simp add: store_embeddings_def)
qed

lemma insert_do_nothing_keeps:
  "tbl k = Some r \<Longrightarrow> fold (insert_do_nothing now) chunk tbl k = Some r"
proof (induction chunk arbitrary: tbl)
  case Nil
  then show ?case by simp
next
  case (Cons row chunk)
  have "insert_do_nothing now row tbl k = Some r"
    using Cons.prems by (auto simp: insert_do_nothing_def split: option.splits)
  then have "fold (insert_do_nothing now) chunk (insert_do_nothing now row tbl) k = Some r"
    by (rule Cons.IH)
  then show ?case by simp
qed

lemma dom_insert_do_nothing:
  "dom (fold (insert_do_nothing now) chunk tbl) = dom tbl \<union> fst ` set chunk"
  by (induction chunk arbitrary: tbl) (auto simp: insert_do_nothing_def split: option.splits)

lemma dom_insert_do_update:
  "dom (fold (\<lambda>(j, row). insert_do_update (clock j) row) jrs tbl)
     = dom tbl \<union> (\<lambda>jr. fst (snd jr)) ` set jrs"
  by (induction jrs arbitrary: tbl)
     (auto simp: insert_do_update_def split: option.splits)

lemma insert_do_update_other:
  "k \<notin> (\<lambda>jr. fst (snd jr)) ` set jrs \<Longrightarrow>
   fold (\<lambda>(j, row). insert_do_update (clock j) row) jrs tbl k = tbl k"
  by (induction jrs arbitrary: tbl)
     (auto simp: insert_do_update_def split: option.splits)

lemma insert_do_update_created:
  "tbl k = Some r \<Longrightarrow>
   \<exists>r'. fold (\<lambda>(j, row). insert_do_update (clock j) row) jrs tbl k = Some r'
        \<and> se_created_at r' = se_created_at r"
proof (induction jrs arbitrary: tbl r)
  case Nil
  then show ?case by simp
next
  case (Cons jr jrs)
  obtain j row where jr: "jr = (j, row)" by (cases jr)
  have "\<exists>r1. insert_do_update (clock j) row tbl k = Some r1 \<and> se_created_at r1 = se_created_at r"
    using Cons.prems by (auto simp: insert_do_update_def split: option.splits)
  then obtain r1 where r1: "insert_do_update (clock j) row tbl k = Some r1"
    and c1: "se_created_at r1 = se_created_at r" by blast
  from Cons.IH [of "insert_do_update (clock j) row tbl" r1] r1 c1 jr show ?case by simp
qed

lemma insert_do_update_last:
  assumes "tbl k = Some r"
    and "k \<notin> (\<lambda>jr. fst (snd jr)) ` set post"
  shows "fold (\<lambda>(j, row). insert_do_update (clock j) row) (pre @ (j, (k, e1, e2)) # post) tbl k
           = Some (r\<lparr>se_embedding := e2, se_updated_at := clock j\<rparr>)"
proof -
  let ?U = "\<lambda>(j, row). insert_do_update (clock j) row"
  obtain r' where r': "fold ?U pre tbl k = Some r'" and c: "se_created_at r' = se_created_at r"
    using insert_do_update_created [of tbl k r clock pre] assms(1) by blast
  have "insert_do_update (clock j) (k, e1, e2) (fold ?U pre tbl) k
          = Some (r'\<lparr>se_embedding := e2, se_updated_at := clock j\<rparr>)"
    using r' by (simp add: insert_do_update_def)
  moreover have "r'\<lparr>se_embedding := e2, se_updated_at := clock j\<rparr>
                   = r\<lparr>se_embedding := e2, se_updated_at := clock j\<rparr>"
    using c by simp
  ultimately show ?thesis
    using insert_do_update_other [OF assms(2), of clock
            "insert_do_update (clock j) (k, e1, e2) (fold ?U pre tbl)"]
    by simp
qed

lemma range_step_single:
  assumes "0 < n" and "n \<le> step"
  shows "range_step n step = [0]"
proof -
  have "(n + step - 1) div step = 1"
  proof -
    have "step \<le> n + step - 1" using assms by simp
    moreover have "n + step - 1 < 2 * step" using assms by simp
    ultimately show ?thesis by (intro div_nat_eqI) simp_all
  qed
  then show ?thesis by (simp add: range_step_def)
qed

lemma store_sqlite_single:
  assumes "db_type \<noteq> ''postgres''" and "composite_keys \<noteq> []"
    and "int (length composite_keys) \<le> batch_size"
  shows "store_embeddings float_repr now clock conn db_type composite_keys embeddings batch_size
           = Inr (commit (executemany clock 0
                   (batch_data float_repr composite_keys (rows embeddings)) conn))"
proof -
  have pos: "0 < batch_size" using assms(2,3) by (cases composite_keys) auto
  have starts: "range_step (length composite_keys) (nat batch_size) = [0]"
    using assms(2,3) by (intro range_step_single) auto
  have "batch_data float_repr (slice 0 (nat batch_size) composite_keys)
          (slice 0 (nat batch_size) (rows embeddings))
        = batch_data float_repr composite_keys (rows embeddings)"
    using assms(3) by (simp add: batch_data_slice) (simp add: slice_def length_batch_data)
  then show ?thesis
    using assms(1) pos starts by (simp add: store_embeddings_def)
qed

text \<open>
  Claim C1: a key \<open>k\<close> has a row \<open>r\<close> (holding \<open>v1\<close>) and a batch is upserted whose
  last entry for \<open>k\<close> carries the vector \<open>rows embeddings ! i\<close> (\<open>v2\<close>). With
  \<open>db_type = 'postgres'\<close> the row of \<open>k\<close> is \<open>r\<close> as before; with any other
  \<open>db_type\<close> and a positive batch size it is \<open>r\<close> with the embedding replaced by the
  serialized \<open>v2\<close> and \<open>updated_at\<close> by the time of that write.
\<close>

theorem conflict_policies:
  assumes "study_embeddings conn k = Some r"
    and "i < length composite_keys" and "i < length (rows embeddings)"
    and "composite_keys ! i = k" and "k \<notin> set (drop (Suc i) composite_keys)"
    and "db_type \<noteq> ''postgres''" and "0 < batch_size"
  shows "(\<exists>c. store_embeddings float_repr now clock conn ''postgres'' composite_keys embeddings
                 batch_size = Inr c
             \<and> study_embeddings c k = Some r)
       \<and> (\<exists>c. store_embeddings float_repr now clock conn db_type composite_keys embeddings
                 batch_size = Inr c
             \<and> study_embeddings c k =
                 Some (r\<lparr>se_embedding := json_dumps float_repr '', '' (rows embeddings ! i),
                         se_updated_at := clock i\<rparr>))"
proof
  show "\<exists>c. store_embeddings float_repr now clock conn ''postgres'' composite_keys embeddings
                 batch_size = Inr c
             \<and> study_embeddings c k = Some r"
    using insert_do_nothing_keeps [of "study_embeddings conn" k r now
            "data_tuples float_repr composite_keys embeddings"] assms(1)
    by (simp add: store_postgres commit_def)
next
  let ?all = "batch_data float_repr composite_keys (rows embeddings)"
  let ?j = "json_dumps float_repr '', '' (rows embeddings ! i)"
  let ?U = "\<lambda>(j, row). insert_do_update (clock j) row"
  have len: "i < length ?all" using assms(2,3) by (simp add: length_batch_data)
  have nth: "?all ! i = (k, ?j, ?j)"
    using assms(2,3,4) by (simp add: batch_data_def)
  have "?all = take i ?all @ ?all ! i # drop (Suc i) ?all"
    using len by (simp add: id_take_nth_drop)
  then have "enumerate 0 ?all
               = enumerate 0 (take i ?all @ (k, ?j, ?j) # drop (Suc i) ?all)"
    using nth by simp
  also have "\<dots> = enumerate 0 (take i ?all) @ (i, (k, ?j, ?j))
                    # enumerate (Suc i) (drop (Suc i) ?all)"
    using len by (simp add: enumerate_append_eq min_def)
  finally have parts: "enumerate 0 ?all = enumerate 0 (take i ?all) @ (i, (k, ?j, ?j))
                    # enumerate (Suc i) (drop (Suc i) ?all)" .
  have "(\<lambda>jr. fst (snd jr)) ` set (enumerate (Suc i) (drop (Suc i) ?all))
          = set (map fst (map snd (enumerate (Suc i) (drop (Suc i) ?all))))"
    by (simp add: image_image del: map_snd_enumerate)
  also have "\<dots> = set (drop (Suc i) (map fst ?all))"
    by (simp add: drop_map)
  also have "\<dots> \<subseteq> set (drop (Suc i) composite_keys)"
    by (simp add: map_fst_batch_data drop_take set_take_subset)
  finally have post: "k \<notin> (\<lambda>jr. fst (snd jr)) ` set (enumerate (Suc i) (drop (Suc i) ?all))"
    using assms(5) by blast
  have written: "fold ?U (enumerate 0 ?all) (study_embeddings conn) k
          = Some (r\<lparr>se_embedding := ?j, se_updated_at := clock i\<rparr>)"
    unfolding parts
    using insert_do_update_last [of "study_embeddings conn" k r
            "enumerate (Suc i) (drop (Suc i) ?all)" clock "enumerate 0 (take i ?all)" i ?j ?j]
          assms(1) post
    by simp
  obtain c where "store_embeddings float_repr now clock conn db_type composite_keys embeddings
                 batch_size = Inr c"
    and "study_embeddings c = fold ?U (enumerate 0 ?all) (study_embeddings conn)"
    using store_sqlite [OF assms(6,7), of float_repr now clock conn composite_keys embeddings]
    by blast
  with written show "\<exists>c. store_embeddings float_repr now clock conn db_type composite_keys embeddings
                 batch_size = Inr c
             \<and> study_embeddings c k =
                 Some (r\<lparr>se_embedding := ?j, se_updated_at := clock i\<rparr>)"
    by simp
qed

theorem conflict_policies_witness:
  "(case store_embeddings str_nat 5 (\<lambda>j. 7 + j) three_studies ''postgres''
           [(''GCST0001'', ''rs123'', ''A'')] \<lparr>ncols = 2, rows = [[3, 4]]\<rparr> 1000 of
      Inl e \<Rightarrow> None
    | Inr c \<Rightarrow> study_embeddings c (''GCST0001'', ''rs123'', ''A''))
     = Some \<lparr>se_embedding = ''[0.6,0.8]'', se_created_at = 1, se_updated_at = 1\<rparr>
   \<and> (case store_embeddings str_nat 5 (\<lambda>j. 7 + j) three_studies ''sqlite''
           [(''GCST0001'', ''rs123'', ''A'')] \<lparr>ncols = 2, rows = [[3, 4]]\<rparr> 1000 of
      Inl e \<Rightarrow> None
    | Inr c \<Rightarrow> study_embeddings c (''GCST0001'', ''rs123'', ''A''))
     = Some \<lparr>se_embedding = ''[3, 4]'', se_created_at = 1, se_updated_at = 7\<rparr>"
proof -
  have digits: "char_of (51::nat) = CHR ''3''" "char_of (52::nat) = CHR ''4''" by code_simp+
  show ?thesis
    using conflict_policies [of three_studies "(''GCST0001'', ''rs123'', ''A'')" stored_row 0
            "[(''GCST0001'', ''rs123'', ''A'')]" "\<lparr>ncols = 2, rows = [[3, 4]]\<rparr>" "''sqlite''"
            1000 str_nat 5 "\<lambda>j. 7 + j"]
    by (auto simp: three_studies_def stored_row_def json_dumps_def digits)
qed

text \<open>
  The same key upserted twice into empty tables, first with \<open>[1, 2]\<close>, then with
  \<open>[3, 4]\<close>: PostgreSQL ends with the first vector, SQLite with the second.
\<close>

lemma upsert_twice_scenario:
  "(case store_embeddings str_nat 5 (\<lambda>j. 7 + j) empty_store ''postgres''
           [(''GCST0001'', ''rs123'', ''A'')] \<lparr>ncols = 2, rows = [[1, 2]]\<rparr> 1000 of
      Inl e \<Rightarrow> None
    | Inr c1 \<Rightarrow>
       (case store_embeddings str_nat 6 (\<lambda>j. 9 + j) c1 ''postgres''
           [(''GCST0001'', ''rs123'', ''A'')] \<lparr>ncols = 2, rows = [[3, 4]]\<rparr> 1000 of
          Inl e \<Rightarrow> None
        | Inr c2 \<Rightarrow> study_embeddings c2 (''GCST0001'', ''rs123'', ''A'')))
     = Some \<lparr>se_embedding = ''[1,2]'', se_created_at = 5, se_updated_at = 5\<rparr>
   \<and> (case store_embeddings str_nat 5 (\<lambda>j. 7 + j) empty_store ''sqlite''
           [(''GCST0001'', ''rs123'', ''A'')] \<lparr>ncols = 2, rows = [[1, 2]]\<rparr> 1000 of
      Inl e \<Rightarrow> None
    | Inr c1 \<Rightarrow>
       (case store_embeddings str_nat 6 (\<lambda>j. 9 + j) c1 ''sqlite''
           [(''GCST0001'', ''rs123'', ''A'')] \<lparr>ncols = 2, rows = [[3, 4]]\<rparr> 1000 of
          Inl e \<Rightarrow> None
        | Inr c2 \<Rightarrow> study_embeddings c2 (''GCST0001'', ''rs123'', ''A'')))
     = Some \<lparr>se_embedding = ''[3, 4]'', se_created_at = 7, se_updated_at = 9\<rparr>"
proof -
  have digits: "char_of (49::nat) = CHR ''1''" "char_of (50::nat) = CHR ''2''"
    "char_of (51::nat) = CHR ''3''" "char_of (52::nat) = CHR ''4''"
    by code_simp+
  show ?thesis
    by (simp add: store_postgres store_sqlite_single commit_def data_tuples_def
          batch_data_def executemany_def insert_do_nothing_def insert_do_update_def
          json_dumps_def digits empty_store_def)
qed

section \<open>Properties of the generate mode\<close>

lemma missing_embeddings_Nil:
  "key_of ` set (gwas_catalog c) \<subseteq> dom (study_embeddings c) \<Longrightarrow> missing_embeddings c = []"
  by (auto simp: missing_embeddings_def filter_empty_conv)

lemma missing_keys_cover:
  "key_of ` set (gwas_catalog conn)
     \<subseteq> dom (study_embeddings conn) \<union> set (map fst (missing_embeddings conn))"
  by (auto simp: missing_embeddings_def)

lemma length_generate_embeddings:
  "length (rows (generate_embeddings model texts batch_size dimensions))
     = length (rows (model (prefixed_texts texts) batch_size))"
  by (simp add: generate_embeddings_def truncate_columns_def Let_def)

lemma fetch_nothing_missing:
  "missing_embeddings c = [] \<Longrightarrow>
   fetch_studies c db_type limit = Inr [] \<or> (\<exists>e. fetch_studies c db_type limit = Inl e)"
  by (auto simp: fetch_studies_def split: option.splits)

lemma main_generate_nothing_missing:
  assumes "missing_embeddings c = []"
  shows "snd (main_generate model float_repr now clock db_type args (fs, c)) = (fs, c)"
  using fetch_nothing_missing [OF assms, of db_type "args_limit args"]
  by (auto simp: main_generate_def)

lemma store_covers:
  assumes "length composite_keys \<le> length (rows embeddings)"
    and "db_type = ''postgres'' \<or> 0 < batch_size"
  shows "\<exists>c. store_embeddings float_repr now clock conn db_type composite_keys embeddings
               batch_size = Inr c
           \<and> dom (study_embeddings c) = dom (study_embeddings conn) \<union> set composite_keys
           \<and> gwas_catalog c = gwas_catalog conn"
proof (cases "db_type = ''postgres''")
  case True
  have "fst ` set (data_tuples float_repr composite_keys embeddings) = set composite_keys"
  proof -
    have "map fst (data_tuples float_repr composite_keys embeddings)
            = take (length (rows embeddings)) composite_keys"
      by (auto simp: data_tuples_def map_fst_zip_take comp_def case_prod_unfold min_def)
    then have "map fst (data_tuples float_repr composite_keys embeddings) = composite_keys"
      using assms(1) by simp
    then show ?thesis by (metis set_map)
  qed
  with True show ?thesis
    by (simp add: store_postgres commit_def dom_insert_do_nothing)
next
  case False
  with assms(2) have pos: "0 < batch_size" by simp
  let ?all = "batch_data float_repr composite_keys (rows embeddings)"
  have "(\<lambda>jr. fst (snd jr)) ` set (enumerate 0 ?all) = set (map fst (map snd (enumerate 0 ?all)))"
    by (simp add: image_image del: map_snd_enumerate)
  also have "\<dots> = set composite_keys"
    using assms(1) by (simp add: map_fst_batch_data)
  finally have keys: "(\<lambda>jr. fst (snd jr)) ` set (enumerate 0 ?all) = set composite_keys" .
  obtain c where c: "store_embeddings float_repr now clock conn db_type composite_keys embeddings
                 batch_size = Inr c"
    and t: "study_embeddings c = fold (\<lambda>(j, row). insert_do_update (clock j) row)
                   (enumerate 0 ?all) (study_embeddings conn)"
    and g: "gwas_catalog c = gwas_catalog conn"
    using store_sqlite [OF False pos, of float_repr now clock conn composite_keys embeddings]
    by blast
  have "dom (study_embeddings c) = dom (study_embeddings conn) \<union> set composite_keys"
    unfolding t dom_insert_do_update keys ..
  with c g show ?thesis by simp
qed

lemma store_sqlite_degenerate:
  assumes "db_type \<noteq> ''postgres''" and "batch_size \<le> 0"
  shows "store_embeddings float_repr now clock conn db_type composite_keys embeddings batch_size
           = (if batch_size = 0 then Inl (ValueError ''range() arg 3 must not be zero'')
              else Inr conn)"
  using assms by (simp add: store_embeddings_def)

lemma main_generate_degenerate:
  assumes "db_type \<noteq> ''postgres''" and "args_upload_batch_size args \<le> 0"
  shows "snd (snd (main_generate model float_repr now clock db_type args (fs, c)))
           = (if args_upload_batch_size args = 0
                 \<and> (\<exists>s ss. fetch_studies c db_type (args_limit args) = Inr (s # ss))
              then rollback c else c)"
proof (cases "fetch_studies c db_type (args_limit args)")
  case (Inl e)
  then show ?thesis by (simp add: main_generate_def)
next
  case (Inr studies)
  then show ?thesis
    using assms
    by (cases studies) (simp_all add: main_generate_def Let_def store_sqlite_degenerate)
qed

lemma rollback_rollback: "rollback (rollback c) = rollback c"
  by (simp add: rollback_def)

text \<open>
  Claim C2, as the code has it. When the limit does not cut the selection (none given,
  or none that leaves a record out) and the model returns one vector for every text,
  a second run of the generate mode leaves the connection, with its
  \<open>study_embeddings\<close> table, as the first run left it.
\<close>

theorem generate_twice:
  assumes contract: "\<And>texts batch_size. length (rows (model texts batch_size)) = length texts"
    and unlimited: "fetch_studies conn db_type (args_limit args) = Inr (missing_embeddings conn)"
  shows "snd (snd (main_generate model float_repr now2 clock2 db_type args
                    (snd (main_generate model float_repr now clock db_type args (fs, conn)))))
           = snd (snd (main_generate model float_repr now clock db_type args (fs, conn)))"
proof (cases "db_type = ''postgres'' \<or> 0 < args_upload_batch_size args")
  case False
  then have d: "db_type \<noteq> ''postgres''" "args_upload_batch_size args \<le> 0" by auto
  obtain code1 fs1 c1 where r1:
    "main_generate model float_repr now clock db_type args (fs, conn) = (code1, fs1, c1)"
    by (cases "main_generate model float_repr now clock db_type args (fs, conn)")
  have c1: "c1 = (if args_upload_batch_size args = 0
                 \<and> (\<exists>s ss. fetch_studies conn db_type (args_limit args) = Inr (s # ss))
              then rollback conn else conn)"
    using main_generate_degenerate [OF d, of model float_repr now clock fs conn] r1 by simp
  have "snd (snd (main_generate model float_repr now2 clock2 db_type args (fs1, c1))) = c1"
  proof (cases "c1 = conn")
    case True
    then show ?thesis
      using main_generate_degenerate [OF d, of model float_repr now2 clock2 fs1 conn] c1
      by (auto split: if_splits)
  next
    case False
    with c1 have "c1 = rollback conn" by (auto split: if_splits)
    then show ?thesis
      using main_generate_degenerate [OF d, of model float_repr now2 clock2 fs1 "rollback conn"]
      by (simp add: rollback_rollback)
  qed
  with r1 show ?thesis by simp
next
  case True
  let ?studies = "missing_embeddings conn"
  show ?thesis
  proof (cases "?studies = []")
    case True
    then have "main_generate model float_repr now clock db_type args (fs, conn) = (0, fs, conn)"
      using unlimited by (simp add: main_generate_def)
    then show ?thesis
      using main_generate_nothing_missing [OF True, of model float_repr now2 clock2 db_type args fs]
      by simp
  next
    case False
    let ?keys = "map fst ?studies"
    let ?emb = "generate_embeddings model (map snd ?studies)
                  (args_batch_size args) (args_dimensions args)"
    have len: "length ?keys \<le> length (rows ?emb)"
      by (simp add: length_generate_embeddings contract prefixed_texts_def)
    obtain c where st: "store_embeddings float_repr now clock conn db_type ?keys ?emb
               (args_upload_batch_size args) = Inr c"
      and dm: "dom (study_embeddings c) = dom (study_embeddings conn) \<union> set ?keys"
      and gc: "gwas_catalog c = gwas_catalog conn"
      using store_covers [OF len \<open>db_type = ''postgres'' \<or> 0 < args_upload_batch_size args\<close>,
              of float_repr now clock conn]
      by blast
    have "key_of ` set (gwas_catalog c) \<subseteq> dom (study_embeddings c)"
      using missing_keys_cover [of conn] by (simp add: gc dm)
    then have none: "missing_embeddings c = []" by (rule missing_embeddings_Nil)
    obtain fs1 where r1:
      "main_generate model float_repr now clock db_type args (fs, conn) = (0, fs1, c)"
      using unlimited False st by (simp add: main_generate_def Let_def)
    show ?thesis
      using main_generate_nothing_missing [OF none, of model float_repr now2 clock2 db_type args fs1]
      by (simp add: r1)
  qed
qed

theorem generate_twice_witness:
  "snd (snd (main_generate example_model str_nat 6 (\<lambda>j. 9 + j) ''sqlite'' default_args
               (snd (main_generate example_model str_nat 5 (\<lambda>j. 7 + j) ''sqlite'' default_args
                       (Map.empty, two_studies)))))
     = snd (snd (main_generate example_model str_nat 5 (\<lambda>j. 7 + j) ''sqlite'' default_args
                   (Map.empty, two_studies)))"
proof -
  have contract: "\<And>texts batch_size. length (rows (example_model texts batch_size)) = length texts"
    by (simp add: example_model_def)
  have unlimited: "fetch_studies two_studies ''sqlite'' (args_limit default_args)
                     = Inr (missing_embeddings two_studies)"
    by (simp add: fetch_studies_def default_args_def)
  show ?thesis by (rule generate_twice [OF contract unlimited])
qed

text \<open>
  The claim as stated fails under a limit: with \<open>limit = 1\<close> and two catalog records
  the first run stores one row and the second run adds the row of the other record.
\<close>

theorem limited_run_twice_counterexample:
  "study_embeddings
     (snd (snd (main_generate example_model str_nat 5 (\<lambda>j. 7 + j) ''postgres''
                  (default_args\<lparr>args_limit := Some 1\<rparr>) (Map.empty, two_studies))))
     (''GCST0002'', ''rs456'', ''T'') = None
   \<and> study_embeddings
     (snd (snd (main_generate example_model str_nat 6 (\<lambda>j. 9 + j) ''postgres''
                  (default_args\<lparr>args_limit := Some 1\<rparr>)
                  (snd (main_generate example_model str_nat 5 (\<lambda>j. 7 + j) ''postgres''
                          (default_args\<lparr>args_limit := Some 1\<rparr>) (Map.empty, two_studies))))))
     (''GCST0002'', ''rs456'', ''T'')
     = Some \<lparr>se_embedding = ''[34,7,9]'', se_created_at = 6, se_updated_at = 6\<rparr>"
proof -
  have digits: "str_nat (length ''search_document: lung asthma  IL33'') = ''34''"
    "str_nat 7 = ''7''" "str_nat 9 = ''9''"
    by code_simp+
  have texts: "prefixed_texts ['' asthma  IL33''] = [''search_document: asthma  IL33'']"
    "prefixed_texts [''lung asthma  IL33''] = [''search_document: lung asthma  IL33'']"
    by (simp_all add: prefixed_texts_def strip_def isspace_def)
  show ?thesis
    by (simp add: main_generate_def fetch_studies_def missing_embeddings_def two_studies_def
          study_row_def key_of_def combined_text_def coalesce_def default_args_def
          generate_embeddings_def example_model_def texts store_postgres data_tuples_def
          json_dumps_def insert_do_nothing_def commit_def digits Let_def
          del: str_nat.simps list.size)
qed

end
